theory Spec2Isabelle
  imports Main "HOL-Library.Sublist" "HOL-Library.Word"
begin

section \<open>Data model of the webhook plugin\<close>

text \<open>
  A row of the \<open>webhooks\<close> table after \<open>getWebhooksForEvent\<close> has parsed its JSON
  columns. \<open>retry_count\<close> and \<open>timeout\<close> are the INTEGER columns of the schema
  (defaults 3 and 30); \<open>secret\<close> is nullable; \<open>http_method\<close> is the column \<open>method\<close>
  and \<open>hook_id\<close> the column \<open>id\<close>. Counts and the retry counter are natural numbers.
  The \<open>metadata\<close> column is never read by the delivery code and is left out.
\<close>

record webhook =
  hook_id :: string
  name :: string
  url :: string
  http_method :: string
  headers :: "(string \<times> string) list"
  secret :: "string option"
  active :: bool
  retry_count :: nat
  timeout :: nat
  events :: "string list"

text \<open>
  A queue item, as pushed by \<open>trigger\<close>:
  \<^verbatim>\<open>{ webhook, eventType, payload, retries: 0, timestamp: Date.now() }\<close>.
  The item built by \<open>test\<close> has no \<open>timestamp\<close> property. The payload is an arbitrary
  JavaScript value, of the type parameter \<open>'p\<close>. The item holds it as JavaScript does: an
  object is held by reference and stays shared with the caller.
\<close>

record 'p item =
  webhook :: webhook
  eventType :: string
  payload :: 'p
  retries :: nat
  timestamp :: "nat option"

text \<open>
  What a caught exception carries. \<open>sendWebhook\<close> itself throws
  \<^verbatim>\<open>new Error(`HTTP ${response.status}: ${responseBody}`)\<close> on a non-2xx response;
  \<open>fetch\<close> rejects on a network failure or when \<open>AbortSignal.timeout\<close> fires;
  \<open>DatabaseService.run\<close> rethrows whatever \<open>db.run\<close> threw; \<open>test\<close> throws
  \<open>Webhook not found\<close>. Only \<open>error.message\<close> is ever read, so the value stands for
  that message.
\<close>

datatype thrown =
    HttpError nat string
  | FetchError string
  | SqlError
  | NotFound

text \<open>
  The fourth argument of \<open>logWebhookDelivery\<close>, an object literal. \<open>duration\<close> is read
  off \<open>performance.now()\<close> and plays no part in control flow; the wall clock is not
  modelled and the field is left out, as are the random \<open>id\<close> and the \<open>create_date\<close>
  of the inserted row.
\<close>

record response =
  status :: "nat option"
  body :: "string option"
  success :: bool
  retryCount :: nat
  error :: "thrown option"

text \<open>A row of \<open>webhook_deliveries\<close>. The table is only ever appended to by the plugin's
  delivery path, so it is a list in insertion order. The payload column holds
  \<open>JSON.stringify(payload)\<close> as of the insert; the row keeps the item's payload.\<close>

record 'p delivery =
  webhook_id :: string
  event_type :: string
  delivery_payload :: 'p
  response_status :: "nat option"
  response_body :: "string option"
  delivery_success :: bool
  delivery_retry_count :: nat
  error_message :: "thrown option"

text \<open>
  The delay handed to \<open>setTimeout\<close>, a JavaScript number: a whole number of milliseconds
  or \<open>Infinity\<close>.
\<close>

datatype millis =
    Finite nat
  | Infinity

text \<open>
  The plugin instance together with the two tables it uses. \<open>queue\<close> and \<open>processing\<close>
  are the fields of \<open>WebhookPlugin\<close>. \<open>inflight\<close> is the item that the running
  \<open>processQueue\<close> loop has shifted off the queue and is awaiting in \<open>sendWebhook\<close>
  (the loop's control state: \<open>None\<close> when no loop is suspended there).
  \<open>timers\<close> are the pending \<open>setTimeout\<close> callbacks with the delay they were given.
\<close>

record 'p world =
  hooks :: "webhook list"
  deliveries :: "'p delivery list"
  queue :: "'p item list"
  processing :: bool
  inflight :: "'p item option"
  timers :: "(millis \<times> 'p item) list"

text \<open>\<open>this.retryDelay = 5000; // 5 seconds\<close>, set in the constructor and never changed.\<close>

definition retryDelay :: nat where
  "retryDelay = 5000"

text \<open>
  \<open>this.retryDelay * Math.pow(2, retries)\<close>, computed in IEEE double precision. The exact
  product \<open>5000 * 2 ^ retries\<close> is \<open>625 * 2 ^ (retries + 3)\<close>, whose significand has ten
  bits, so the double is that number whenever it is below \<open>2 ^ 1024\<close>; from there on
  (\<open>retries\<close> 1012 and more) the result overflows to \<open>Infinity\<close>.
\<close>

definition backoff :: "nat \<Rightarrow> millis" where
  "backoff r =
     (if retryDelay * 2 ^ r < 2 ^ 1024 then Finite (retryDelay * 2 ^ r) else Infinity)"

section \<open>The store operations used by delivery\<close>

text \<open>
  \<open>getWebhooksForEvent\<close>: the rows with \<open>active = 1\<close>, filtered by
  \<^verbatim>\<open>events.includes(eventType) || events.includes('*')\<close>.
\<close>

definition getWebhooksForEvent :: "string \<Rightarrow> webhook list \<Rightarrow> webhook list" where
  "getWebhooksForEvent ev hs =
     filter (\<lambda>hook. ev \<in> set (events hook) \<or> ''*'' \<in> set (events hook))
       (filter active hs)"

text \<open>
  \<open>logWebhookDelivery\<close> inserts one row through \<open>DatabaseService.run\<close>, which rethrows
  when \<open>db.run\<close> throws (the \<open>saveToIndexedDB\<close> promise is not awaited, so its rejection
  is never seen here). Whether \<open>db.run\<close> throws is the Boolean \<open>fault\<close>.
\<close>

definition logWebhookDelivery ::
  "bool \<Rightarrow> string \<Rightarrow> string \<Rightarrow> 'p \<Rightarrow> response \<Rightarrow> 'p delivery list \<Rightarrow> thrown + 'p delivery list" where
  "logWebhookDelivery fault webhookId ev p r rows =
     (if fault then Inl SqlError
      else Inr (rows @
        [\<lparr>webhook_id = webhookId, event_type = ev, delivery_payload = p,
          response_status = status r, response_body = body r,
          delivery_success = success r, delivery_retry_count = retryCount r,
          error_message = error r\<rparr>]))"

section \<open>Sending one webhook\<close>

text \<open>
  What the awaited \<open>fetch\<close> (and \<open>response.text()\<close>) of one send produced: a response
  with its status and body, or a rejection (network failure, or the abort signal after
  \<open>webhook.timeout * 1000\<close> ms).
\<close>

datatype fetched =
    Response nat string
  | Rejected string

text \<open>\<open>response.ok\<close>: the status is in the range 200-299.\<close>

definition ok :: "nat \<Rightarrow> bool" where
  "ok st \<longleftrightarrow> 200 \<le> st \<and> st \<le> 299"

text \<open>
  One send makes at most two inserts. \<open>faults\<close> lists, in call order, whether each
  \<open>db.run\<close> of this send throws; an insert beyond the end of the list succeeds.
\<close>

fun next_fault :: "bool list \<Rightarrow> bool \<times> bool list" where
  "next_fault [] = (False, [])"
| "next_fault (f # fs) = (f, fs)"

text \<open>
  The \<open>catch (error)\<close> block of \<open>sendWebhook\<close>: insert a failure row with
  \<open>status: null, body: null, success: false, retryCount: retries\<close>; then, if
  \<open>retries < webhook.retry_count\<close>, call \<open>setTimeout\<close> with the delay
  \<open>this.retryDelay * Math.pow(2, retries)\<close> (\<open>backoff\<close>) and a callback that pushes
  \<^verbatim>\<open>{ ...item, retries: retries + 1 }\<close>. The insert is not guarded: when it throws, the
  exception leaves \<open>sendWebhook\<close> before the retry test is reached.
  (\<open>loggingPlugin.error\<close> and \<open>loggingPlugin.info\<close> catch their own store errors and
  change nothing modelled here.)
\<close>

definition catch_block ::
  "thrown \<Rightarrow> bool list \<Rightarrow> 'p item \<Rightarrow> 'p world \<Rightarrow> 'p world \<times> thrown option" where
  "catch_block e faults it w =
     (case logWebhookDelivery (fst (next_fault faults)) (hook_id (webhook it)) (eventType it)
             (payload it)
             \<lparr>status = None, body = None, success = False, retryCount = retries it,
              error = Some e\<rparr>
             (deliveries w) of
        Inl x \<Rightarrow> (w, Some x)
      | Inr rows \<Rightarrow>
          (if retries it < retry_count (webhook it)
           then w\<lparr>deliveries := rows,
                  timers := timers w @
                    [(backoff (retries it), it\<lparr>retries := retries it + 1\<rparr>)]\<rparr>
           else w\<lparr>deliveries := rows\<rparr>,
           None))"

text \<open>
  \<open>sendWebhook(item)\<close>, given the outcome of its \<open>fetch\<close>. In the \<open>try\<close> block a
  response of any status is logged with \<open>success: response.ok, retryCount: retries\<close>;
  a response that is not \<open>ok\<close> then throws, and so does a failed insert, into the catch
  block above. The result is the new state and the exception that escapes
  \<open>sendWebhook\<close>, if any. The request handed to \<open>fetch\<close> is \<open>buildRequest\<close>, further
  down; what the endpoint makes of it is the input \<open>out\<close>.
\<close>

definition sendWebhook ::
  "fetched \<Rightarrow> bool list \<Rightarrow> 'p item \<Rightarrow> 'p world \<Rightarrow> 'p world \<times> thrown option" where
  "sendWebhook out faults it w =
     (case out of
        Rejected msg \<Rightarrow> catch_block (FetchError msg) faults it w
      | Response st b \<Rightarrow>
          (case logWebhookDelivery (fst (next_fault faults)) (hook_id (webhook it))
                  (eventType it) (payload it)
                  \<lparr>status = Some st, body = Some b, success = ok st,
                   retryCount = retries it, error = None\<rparr>
                  (deliveries w) of
             Inl x \<Rightarrow> catch_block x (snd (next_fault faults)) it w
           | Inr rows \<Rightarrow>
               (if ok st then (w\<lparr>deliveries := rows\<rparr>, None)
                else catch_block (HttpError st b) (snd (next_fault faults)) it
                       (w\<lparr>deliveries := rows\<rparr>))))"

section \<open>The queue\<close>

text \<open>
  The head of the \<open>while (this.queue.length > 0)\<close> loop of \<open>processQueue\<close>: shift the
  next item and start sending it, or, on an empty queue, leave the loop and reset
  \<open>processing\<close>.
\<close>

definition drain :: "'p world \<Rightarrow> 'p world" where
  "drain w =
     (case queue w of
        [] \<Rightarrow> w\<lparr>processing := False, inflight := None\<rparr>
      | it # rest \<Rightarrow> w\<lparr>queue := rest, inflight := Some it\<rparr>)"

definition processQueue :: "'p world \<Rightarrow> 'p world" where
  "processQueue w =
     (if processing w \<or> queue w = [] then w
      else drain (w\<lparr>processing := True\<rparr>))"

text \<open>
  \<open>trigger(eventType, payload)\<close>; \<open>now\<close> is the value of \<open>Date.now()\<close>.
  \<open>processQueue\<close> is called without \<open>await\<close>, so nothing it throws reaches the caller.
\<close>

definition new_item :: "nat \<Rightarrow> string \<Rightarrow> 'p \<Rightarrow> webhook \<Rightarrow> 'p item" where
  "new_item now ev p hook =
     \<lparr>webhook = hook, eventType = ev, payload = p, retries = 0, timestamp = Some now\<rparr>"

definition trigger :: "nat \<Rightarrow> string \<Rightarrow> 'p \<Rightarrow> 'p world \<Rightarrow> 'p world" where
  "trigger now ev p w =
     (let webhooks = getWebhooksForEvent ev (hooks w) in
      if length webhooks = 0 then w
      else
        (let w1 = w\<lparr>queue := queue w @ map (new_item now ev p) webhooks\<rparr> in
         if \<not> processing w1 then processQueue w1 else w1))"

text \<open>The callback of \<open>startQueueProcessor\<close>, run every 1000 ms.\<close>

definition tick :: "'p world \<Rightarrow> 'p world" where
  "tick w = (if \<not> processing w \<and> length (queue w) > 0 then processQueue w else w)"

text \<open>
  The \<open>n\<close>-th pending \<open>setTimeout\<close> callback runs: \<open>this.queue.push(...)\<close>. Which timer
  is due is decided by the clock and by how the platform reads the delay, neither of
  which is modelled: any pending timer may run.
\<close>

definition fire :: "nat \<Rightarrow> 'p world \<Rightarrow> 'p world" where
  "fire n w =
     (if n < length (timers w)
      then w\<lparr>queue := queue w @ [snd (timers w ! n)],
             timers := take n (timers w) @ drop (Suc n) (timers w)\<rparr>
      else w)"

text \<open>
  The \<open>await this.sendWebhook(item)\<close> of the running loop returns or throws. When it
  returns, the loop goes round; when it throws, \<open>processQueue\<close> is left at once and the
  line \<open>this.processing = false\<close> is never reached.
\<close>

definition complete :: "fetched \<Rightarrow> bool list \<Rightarrow> 'p world \<Rightarrow> 'p world" where
  "complete out faults w =
     (case inflight w of
        None \<Rightarrow> w
      | Some it \<Rightarrow>
          (case sendWebhook out faults it w of
             (w1, None) \<Rightarrow> drain w1
           | (w1, Some e) \<Rightarrow> w1\<lparr>inflight := None\<rparr>))"

text \<open>
  \<open>test(webhookId, testPayload = null)\<close>: the row is read with
  \<open>SELECT * FROM webhooks WHERE id = ?\<close> (no test of \<open>active\<close>); the payload is
  \<^verbatim>\<open>testPayload || { test: true, timestamp: ..., message: ... }\<close>, so that an omitted
  payload (\<open>None\<close>) and every falsy one (\<open>null\<close>, \<open>''\<close>, \<open>0\<close>, \<open>false\<close>) is replaced by the
  synthetic object \<open>dflt\<close>; \<open>sendWebhook\<close> is called directly with
  \<open>eventType: 'test', retries: 0\<close>. \<open>is_truthy\<close> is JavaScript's truthiness on the
  payload type.
\<close>

definition test ::
  "('p \<Rightarrow> bool) \<Rightarrow> 'p \<Rightarrow> string \<Rightarrow> 'p option \<Rightarrow> fetched \<Rightarrow> bool list \<Rightarrow> 'p world \<Rightarrow>
   'p world \<times> thrown option" where
  "test is_truthy dflt webhookId testPayload out faults w =
     (case find (\<lambda>hook. hook_id hook = webhookId) (hooks w) of
        None \<Rightarrow> (w, Some NotFound)
      | Some hook \<Rightarrow>
          sendWebhook out faults
            \<lparr>webhook = hook, eventType = ''test'',
             payload = (case testPayload of
                          None \<Rightarrow> dflt
                        | Some p \<Rightarrow> if is_truthy p then p else dflt),
             retries = 0, timestamp = None\<rparr> w)"

text \<open>
  What can happen to the plugin, one event at a time. Between two awaits JavaScript runs
  to completion, so each event is atomic.
\<close>

datatype 'p event =
    Trigger nat string 'p
  | Tick
  | Fire nat
  | Complete fetched "bool list"
  | Test "'p \<Rightarrow> bool" 'p string "'p option" fetched "bool list"

fun step :: "'p event \<Rightarrow> 'p world \<Rightarrow> 'p world" where
  "step (Trigger now ev p) w = trigger now ev p w"
| "step Tick w = tick w"
| "step (Fire n) w = fire n w"
| "step (Complete out faults) w = complete out faults w"
| "step (Test is_truthy dflt wid tp out faults) w =
     fst (test is_truthy dflt wid tp out faults w)"

fun run :: "'p event list \<Rightarrow> 'p world \<Rightarrow> 'p world" where
  "run [] w = w"
| "run (e # es) w = run es (step e w)"

section \<open>Request construction and signature\<close>

text \<open>
  \<open>JSON.stringify\<close>, \<open>TextEncoder.encode\<close> and the HMAC-SHA-256 of \<open>crypto.subtle\<close> belong
  to the platform; they are the parameters \<open>stringify\<close>, \<open>encode\<close> and \<open>hmac\<close> (key
  first, then data). The hex encoding is the plugin's own.
\<close>

type_synonym byte = "8 word"

definition hexdigit :: "nat \<Rightarrow> char" where
  "hexdigit d = ''0123456789abcdef'' ! d"

text \<open>\<open>b.toString(16)\<close> for a non-negative integer.\<close>

fun toString16 :: "nat \<Rightarrow> string" where
  "toString16 n =
     (if n < 16 then [hexdigit n] else toString16 (n div 16) @ [hexdigit (n mod 16)])"

declare toString16.simps [simp del]

text \<open>\<open>s.padStart(n, c)\<close> with a one-character filler.\<close>

definition padStart :: "nat \<Rightarrow> char \<Rightarrow> string \<Rightarrow> string" where
  "padStart n c s = replicate (n - length s) c @ s"

text \<open>
  \<^verbatim>\<open>Array.from(new Uint8Array(signature)).map(b => b.toString(16).padStart(2, '0')).join('')\<close>
\<close>

definition hex :: "byte list \<Rightarrow> string" where
  "hex bs = concat (map (\<lambda>b. padStart 2 (CHR ''0'') (toString16 (unat b))) bs)"

text \<open>
  \<open>generateSignature(payload, secret)\<close>; \<open>v\<close> is what the payload holds when
  \<open>JSON.stringify(payload)\<close> runs, which is at the call, before the first \<open>await\<close>.
\<close>

definition generateSignature ::
  "('v \<Rightarrow> string) \<Rightarrow> (string \<Rightarrow> byte list) \<Rightarrow> (byte list \<Rightarrow> byte list \<Rightarrow> byte list) \<Rightarrow>
   'v \<Rightarrow> string \<Rightarrow> string" where
  "generateSignature stringify encode hmac v s =
     (let data = encode (stringify v);
          key = encode s
      in hex (hmac key data))"

text \<open>
  The arguments of the \<open>fetch\<close> call in \<open>sendWebhook\<close>. The header object starts from
  \<^verbatim>\<open>{ 'Content-Type': 'application/json', ...webhook.headers }\<close>; the signature is added
  when \<open>webhook.secret\<close> is truthy (neither \<open>null\<close> nor the empty string); \<open>X-Event-Type\<close>
  is set last. The body is \<open>JSON.stringify(payload)\<close>, which \<open>fetch\<close> sends UTF-8
  encoded.

  The payload is serialized twice: inside \<open>generateSignature\<close>, and again for the body
  after \<open>sendWebhook\<close> has awaited \<open>generateSignature\<close> (which awaits \<open>importKey\<close> and
  \<open>sign\<close>). A payload object is shared with the caller of \<open>trigger\<close>, who runs during
  those awaits and may assign to it. So the contents of payloads are read from a store,
  once as it is at the first serialization (\<open>at_sign\<close>) and once as it is at the second
  (\<open>at_fetch\<close>); the two stores agree on a payload that nobody changed in between.
\<close>

record request =
  req_url :: string
  req_method :: string
  req_headers :: "string \<rightharpoonup> string"
  req_body :: string
  req_timeout_ms :: nat

definition buildRequest ::
  "('v \<Rightarrow> string) \<Rightarrow> (string \<Rightarrow> byte list) \<Rightarrow> (byte list \<Rightarrow> byte list \<Rightarrow> byte list) \<Rightarrow>
   ('p \<Rightarrow> 'v) \<Rightarrow> ('p \<Rightarrow> 'v) \<Rightarrow> 'p item \<Rightarrow> request" where
  "buildRequest stringify encode hmac at_sign at_fetch it =
     (let hook = webhook it;
          h0 = [''Content-Type'' \<mapsto> ''application/json''] ++ map_of (headers hook);
          h1 = (case secret hook of
                  None \<Rightarrow> h0
                | Some s \<Rightarrow>
                    if s = [] then h0
                    else h0(''X-Webhook-Signature'' \<mapsto>
                           generateSignature stringify encode hmac (at_sign (payload it)) s));
          h2 = h1(''X-Event-Type'' \<mapsto> eventType it)
      in \<lparr>req_url = url hook, req_method = http_method hook, req_headers = h2,
          req_body = stringify (at_fetch (payload it)), req_timeout_ms = timeout hook * 1000\<rparr>)"

section \<open>The SQL statements of the plugin\<close>

text \<open>
  A JavaScript value bound as a statement parameter or given in an \<open>updates\<close> object.
  \<open>typeof v === 'object'\<close> holds for objects, arrays and \<open>null\<close>.
\<close>

datatype 'o jsval =
    JString string
  | JNumber int
  | JBool bool
  | JNull
  | JObject 'o

text \<open>A statement as handed to \<open>dbService.run\<close>: the SQL text and the positional
  parameters.\<close>

type_synonym 'o stmt = "string \<times> 'o jsval list"

text \<open>\<open>Array.prototype.join\<close> on strings.\<close>

fun join :: "string \<Rightarrow> string list \<Rightarrow> string" where
  "join sep [] = []"
| "join sep [x] = x"
| "join sep (x # y # ys) = x @ sep @ join sep (y # ys)"

text \<open>
  \<open>update(webhookId, updates)\<close>. \<open>updates\<close> is the object as the list of its own
  properties in \<open>Object.keys\<close> order (an object's keys are distinct). Keys other than
  \<open>id\<close> and \<open>create_date\<close> are pasted into the SET clause; the values are bound,
  objects as their JSON text.
\<close>

definition update_keys :: "(string \<times> 'o jsval) list \<Rightarrow> (string \<times> 'o jsval) list" where
  "update_keys updates = filter (\<lambda>(key, v). key \<notin> set [''id'', ''create_date'']) updates"

fun bind_value :: "('o jsval \<Rightarrow> string) \<Rightarrow> 'o jsval \<Rightarrow> 'o jsval" where
  "bind_value stringify (JObject x) = JString (stringify (JObject x))"
| "bind_value stringify JNull = JString (stringify JNull)"
| "bind_value stringify v = v"

definition update_stmt ::
  "('o jsval \<Rightarrow> string) \<Rightarrow> 'o jsval \<Rightarrow> (string \<times> 'o jsval) list \<Rightarrow> 'o stmt" where
  "update_stmt stringify webhookId updates =
     (let setClause = join '', '' (map (\<lambda>(key, v). key @ '' = ?'') (update_keys updates));
          values = map (\<lambda>(key, v). bind_value stringify v) (update_keys updates) @ [webhookId]
      in (''UPDATE webhooks SET '' @ setClause @ '' WHERE id = ?'', values))"

text \<open>\<open>delete(webhookId)\<close>.\<close>

definition delete_stmt :: "'o jsval \<Rightarrow> 'o stmt" where
  "delete_stmt webhookId = (''UPDATE webhooks SET active = 0 WHERE id = ?'', [webhookId])"

text \<open>
  \<open>updateProfile(updates)\<close> of the auth plugin builds its statement the same way, but
  only from the keys found in \<open>allowedFields\<close>; its values are \<open>Object.values\<close> of the
  filtered object, followed by the id of the current user.
\<close>

definition allowedFields :: "string list" where
  "allowedFields = [''display_name'', ''email'', ''avatar_url'', ''preferences'']"

definition updateProfile_stmt :: "'o jsval \<Rightarrow> (string \<times> 'o jsval) list \<Rightarrow> 'o stmt" where
  "updateProfile_stmt currentUserId updates =
     (let filteredUpdates = filter (\<lambda>(key, v). key \<in> set allowedFields) updates;
          setClause = join '', '' (map (\<lambda>(key, v). key @ '' = ?'') filteredUpdates);
          values = map snd filteredUpdates @ [currentUserId]
      in (''UPDATE users SET '' @ setClause @ '' WHERE id = ?'', values))"

section \<open>The scenario of the specification\<close>

text \<open>
  The subscription \<^verbatim>\<open>{url: "https://example.test/hook", retry_count: n, timeout: 5}\<close>
  subscribed to \<open>user.registered\<close>, registered with the defaults of \<open>createWebhook\<close>,
  and a plugin that has just been constructed.
\<close>

definition example_hook :: "nat \<Rightarrow> webhook" where
  "example_hook n =
     \<lparr>hook_id = ''w1'', name = ''hook'', url = ''https://example.test/hook'',
      http_method = ''POST'', headers = [], secret = None, active = True, retry_count = n,
      timeout = 5, events = [''user.registered'']\<rparr>"

definition example_world :: "nat \<Rightarrow> string world" where
  "example_world n =
     \<lparr>hooks = [example_hook n], deliveries = [], queue = [], processing = False,
      inflight = None, timers = []\<rparr>"

text \<open>The item that \<open>trigger\<close> builds for that subscription, and the plugin while the
  drain loop is sending it.\<close>

definition example_item :: "string item" where
  "example_item = new_item 0 ''user.registered'' ''{id:u1}'' (example_hook 3)"

definition example_sending :: "string world" where
  "example_sending =
     (example_world 3)\<lparr>processing := True, inflight := Some example_item\<rparr>"

text \<open>An attempt for a subscription with \<open>retry_count\<close> 2000 that has failed 1012
  times.\<close>

definition example_late :: "string item" where
  "example_late = example_item\<lparr>webhook := example_hook 2000, retries := 1012\<rparr>"


text \<open>Stand-ins for the platform functions, used only to run \<open>buildRequest\<close> on a
  concrete item: the character codes as bytes, and a keyed function of the data that is
  not a real MAC.\<close>

definition example_encode :: "string \<Rightarrow> byte list" where
  "example_encode s = map (\<lambda>c. of_nat (of_char c)) s"

definition example_hmac :: "byte list \<Rightarrow> byte list \<Rightarrow> byte list" where
  "example_hmac key data = key @ data"

text \<open>
  A caller that does
  \<^verbatim>\<open>const o = {id: 'u1'}; webhooks.trigger('user.registered', o); o.id = 'u2'\<close>
  on an idle plugin whose subscription has the secret \<open>k\<close>. The item holds the object
  \<open>o\<close>; \<open>trigger\<close> runs \<open>processQueue\<close>, \<open>sendWebhook\<close> and \<open>generateSignature\<close> up to
  the first \<open>await\<close> before it returns, so the object is serialized for the signature
  as \<open>example_before\<close> gives it and for the body as \<open>example_after\<close> gives it. Objects are
  lists of properties, serialized by a stand-in for \<open>JSON.stringify\<close>.
\<close>

definition example_signed :: "string item" where
  "example_signed =
     new_item 0 ''user.registered'' ''o'' ((example_hook 3)\<lparr>secret := Some ''k''\<rparr>)"

definition example_before :: "string \<Rightarrow> (string \<times> string) list" where
  "example_before r = [(''id'', ''u1'')]"

definition example_after :: "string \<Rightarrow> (string \<times> string) list" where
  "example_after r = [(''id'', ''u2'')]"

definition example_stringify :: "(string \<times> string) list \<Rightarrow> string" where
  "example_stringify props =
     ''{'' @ join '','' (map (\<lambda>(key, v). key @ '':'' @ v) props) @ ''}''"

section \<open>Basic facts about one send\<close>

text \<open>The delay is the exact product up to counter 1011 and \<open>Infinity\<close> beyond.\<close>

lemma backoff_finite:
  assumes "r \<le> 1011"
  shows "backoff r = Finite (5000 * 2 ^ r)"
proof -
  have "(5000::nat) * 2 ^ r < 2 ^ 13 * 2 ^ r" by simp
  also have "\<dots> = 2 ^ (13 + r)" by (simp add: power_add)
  also have "\<dots> \<le> 2 ^ 1024" using assms by (intro power_increasing) simp_all
  finally show ?thesis by (simp add: backoff_def retryDelay_def)
qed

lemma backoff_infinite:
  assumes "1012 \<le> r"
  shows "backoff r = Infinity"
proof -
  have "(2::nat) ^ 1024 = 2 ^ 12 * 2 ^ 1012" by (simp add: power_add [symmetric])
  also have "\<dots> \<le> 2 ^ 12 * 2 ^ r"
    using assms by (intro mult_left_mono power_increasing) simp_all
  also have "\<dots> \<le> 5000 * 2 ^ r" by simp
  finally have "\<not> (5000::nat) * 2 ^ r < 2 ^ 1024" by simp
  then show ?thesis by (simp add: backoff_def retryDelay_def)
qed

lemmas model_defs =
  trigger_def getWebhooksForEvent_def new_item_def processQueue_def drain_def
  complete_def sendWebhook_def catch_block_def logWebhookDelivery_def ok_def fire_def
  tick_def test_def backoff_finite

lemmas example_defs =
  example_world_def example_hook_def example_item_def example_sending_def

text \<open>\<open>sendWebhook\<close> touches the delivery table and the timers only.\<close>

lemma sendWebhook_frame:
  "queue (fst (sendWebhook out fs it w)) = queue w \<and>
   processing (fst (sendWebhook out fs it w)) = processing w \<and>
   inflight (fst (sendWebhook out fs it w)) = inflight w \<and>
   hooks (fst (sendWebhook out fs it w)) = hooks w"
  by (cases out)
     (simp_all add: sendWebhook_def catch_block_def logWebhookDelivery_def)

lemma catch_block_throws:
  "fst (next_fault fs) \<Longrightarrow> catch_block e fs it w = (w, Some SqlError)"
  by (simp add: catch_block_def logWebhookDelivery_def)

lemma catch_block_stores:
  "\<not> fst (next_fault fs) \<Longrightarrow>
   catch_block e fs it w =
     (if retries it < retry_count (webhook it)
      then w\<lparr>deliveries := deliveries w @
               [\<lparr>webhook_id = hook_id (webhook it), event_type = eventType it,
                 delivery_payload = payload it, response_status = None,
                 response_body = None, delivery_success = False,
                 delivery_retry_count = retries it, error_message = Some e\<rparr>],
             timers := timers w @
               [(backoff (retries it), it\<lparr>retries := retries it + 1\<rparr>)]\<rparr>
      else w\<lparr>deliveries := deliveries w @
               [\<lparr>webhook_id = hook_id (webhook it), event_type = eventType it,
                 delivery_payload = payload it, response_status = None,
                 response_body = None, delivery_success = False,
                 delivery_retry_count = retries it, error_message = Some e\<rparr>]\<rparr>,
      None)"
  by (simp add: catch_block_def logWebhookDelivery_def)

text \<open>
  The timers after a send, for every outcome and every behaviour of the store. The
  retry test is reached when the \<open>catch\<close> block is entered (the \<open>fetch\<close> was rejected,
  the response was not \<open>ok\<close>, or the insert of the response record threw) and the insert
  of the failure record does not throw.
\<close>

lemma rejected_send_timers:
  "timers (fst (sendWebhook (Rejected msg) fs it w)) =
     (if \<not> fst (next_fault fs) \<and> retries it < retry_count (webhook it)
      then timers w @ [(backoff (retries it), it\<lparr>retries := retries it + 1\<rparr>)]
      else timers w)"
  by (cases "fst (next_fault fs)")
     (simp_all add: sendWebhook_def catch_block_throws catch_block_stores)

lemma stored_ok_send_timers:
  "ok st \<Longrightarrow> \<not> fst (next_fault fs) \<Longrightarrow>
   timers (fst (sendWebhook (Response st b) fs it w)) = timers w"
  by (simp add: sendWebhook_def logWebhookDelivery_def)

lemma caught_send_timers:
  "\<not> ok st \<or> fst (next_fault fs) \<Longrightarrow>
   timers (fst (sendWebhook (Response st b) fs it w)) =
     (if \<not> fst (next_fault (snd (next_fault fs))) \<and> retries it < retry_count (webhook it)
      then timers w @ [(backoff (retries it), it\<lparr>retries := retries it + 1\<rparr>)]
      else timers w)"
  by (cases "fst (next_fault fs)"; cases "fst (next_fault (snd (next_fault fs)))")
     (auto simp: sendWebhook_def logWebhookDelivery_def catch_block_throws catch_block_stores)

lemma send_adds_at_most_one_timer:
  "timers (fst (sendWebhook out fs it w)) = timers w \<or>
   timers (fst (sendWebhook out fs it w)) =
     timers w @ [(backoff (retries it), it\<lparr>retries := retries it + 1\<rparr>)]"
  by (cases out; cases fs)
     (auto simp: sendWebhook_def catch_block_def logWebhookDelivery_def
           split: sum.splits if_splits)

section \<open>The drain loop\<close>

text \<open>An item is in flight only while \<open>processing\<close> is set; every event keeps it so.\<close>

lemma inflight_processing_step:
  assumes "processing w \<or> inflight w = None"
  shows "processing (step e w) \<or> inflight (step e w) = None"
proof (cases e)
  case (Trigger now ev p)
  with assms show ?thesis
    by (cases "queue w"; cases "getWebhooksForEvent ev (hooks w)")
       (auto simp: trigger_def Let_def processQueue_def drain_def)
next
  case Tick
  with assms show ?thesis
    by (cases "queue w") (auto simp: tick_def processQueue_def drain_def)
next
  case (Fire n)
  with assms show ?thesis by (auto simp: fire_def)
next
  case (Complete out fs)
  show ?thesis
  proof (cases "inflight w")
    case None
    with Complete show ?thesis by (simp add: complete_def)
  next
    case (Some it)
    with assms have "processing w" by simp
    with Some Complete sendWebhook_frame [of out fs it w] show ?thesis
      by (cases "sendWebhook out fs it w"; cases "snd (sendWebhook out fs it w)";
          cases "queue w")
         (auto simp: complete_def drain_def)
  qed
next
  case (Test is_truthy dflt wid tp out fs)
  with assms show ?thesis
    by (auto simp: test_def sendWebhook_frame split: option.splits)
qed

text \<open>Once \<open>processing\<close> is set and no loop is running, no event changes that, and no
  event takes anything off the queue.\<close>

lemma stuck_step:
  assumes "processing w" and "inflight w = None"
  shows "processing (step e w) \<and> inflight (step e w) = None \<and>
         prefix (queue w) (queue (step e w))"
proof (cases e)
  case (Trigger now ev p)
  with assms show ?thesis by (simp add: trigger_def Let_def)
next
  case Tick
  with assms show ?thesis by (simp add: tick_def)
next
  case (Fire n)
  with assms show ?thesis by (simp add: fire_def)
next
  case (Complete out fs)
  with assms show ?thesis by (simp add: complete_def)
next
  case (Test is_truthy dflt wid tp out fs)
  with assms show ?thesis
    by (simp add: test_def sendWebhook_frame split: option.splits)
qed

lemma stuck_run:
  assumes "processing w" and "inflight w = None"
  shows "processing (run es w) \<and> inflight (run es w) = None \<and>
         prefix (queue w) (queue (run es w))"
  using assms
proof (induction es arbitrary: w)
  case Nil
  then show ?case by simp
next
  case (Cons e es)
  from stuck_step [OF Cons.prems(1) Cons.prems(2), of e]
  have 1: "processing (step e w)" and 2: "inflight (step e w) = None"
    and 3: "prefix (queue w) (queue (step e w))" by simp_all
  from Cons.IH [OF 1 2] 3 show ?case
    by (auto intro: prefix_order.trans)
qed


section \<open>Delivery records per send\<close>

text \<open>
  Claim C1. Every completed HTTP send is to leave exactly one delivery record, so that a
  subscription with \<open>retry_count\<close> 2 whose sends return 500, 500 and 200 ends with three
  records (retry counts 0, 1, 2). Running the plugin on that scenario gives five: each
  non-2xx response is inserted once in the \<open>try\<close> block and, after the \<open>throw\<close>, once
  more in the \<open>catch\<close> block, both with the counter of that send.
\<close>

theorem non_2xx_send_logs_twice:
  "map (\<lambda>d. (delivery_retry_count d, delivery_success d))
     (deliveries
        (run [Trigger 0 ''user.registered'' ''{id:u1}'',
              Complete (Response 500 ''error'') [],
              Fire 0, Tick,
              Complete (Response 500 ''error'') [],
              Fire 0, Tick,
              Complete (Response 200 ''ok'') []]
           (example_world 2)))
   = [(0, False), (0, False), (1, False), (1, False), (2, True)]"
  by (simp add: example_defs model_defs)

section \<open>Store failures and the retry decision\<close>

text \<open>
  Claim C2. A failed insert of a delivery record is said to be logged only, the due
  retry being scheduled all the same. In the code the insert of the failure record is
  the statement before the retry test and is not guarded: when it throws, the exception
  leaves \<open>sendWebhook\<close> and no timer is set. The retry is scheduled when that insert
  succeeds, and then also when the earlier insert of the response record threw.
\<close>

theorem retry_needs_failure_row_stored:
  assumes "retries it < retry_count (webhook it)"
  shows "sendWebhook (Rejected msg) (True # fs) it w = (w, Some SqlError) \<and>
         sendWebhook (Response st b) (True # True # fs) it w = (w, Some SqlError) \<and>
         (\<not> ok st \<longrightarrow>
            snd (sendWebhook (Response st b) (False # True # fs) it w) = Some SqlError \<and>
            timers (fst (sendWebhook (Response st b) (False # True # fs) it w)) = timers w) \<and>
         snd (sendWebhook (Response st b) (True # False # fs) it w) = None \<and>
         timers (fst (sendWebhook (Response st b) (True # False # fs) it w)) =
           timers w @ [(backoff (retries it), it\<lparr>retries := retries it + 1\<rparr>)]"
  using assms
  by (simp add: sendWebhook_def logWebhookDelivery_def catch_block_throws catch_block_stores)

theorem retry_needs_failure_row_stored_witness:
  "retries example_item < retry_count (webhook example_item) \<and> \<not> ok 500 \<and>
   sendWebhook (Rejected ''timeout'') [True] example_item (example_world 3) =
     (example_world 3, Some SqlError) \<and>
   snd (sendWebhook (Response 500 ''error'') [False, True] example_item (example_world 3)) =
     Some SqlError \<and>
   timers (fst (sendWebhook (Response 500 ''error'') [False, True] example_item
     (example_world 3))) = [] \<and>
   timers (fst (sendWebhook (Response 500 ''error'') [True, False] example_item
     (example_world 3))) = [(Finite 5000, example_item\<lparr>retries := 1\<rparr>)]"
proof -
  have h: "retries example_item < retry_count (webhook example_item)"
    by (simp add: example_defs new_item_def)
  have n: "\<not> ok 500" by (simp add: ok_def)
  have t: "timers (example_world 3) = []" by (simp add: example_defs)
  from retry_needs_failure_row_stored [OF h, of "''timeout''" "[]" "example_world 3" 500 "''error''"]
    h n t
  show ?thesis by (simp add: backoff_finite example_item_def new_item_def)
qed

theorem store_fault_drops_due_retry:
  "retries example_item < retry_count (webhook example_item) \<and>
   sendWebhook (Rejected ''timeout'') [True] example_item (example_world 3) =
     (example_world 3, Some SqlError) \<and>
   timers (example_world 3) = []"
  by (simp add: example_defs model_defs)

section \<open>A throwing send stops the queue\<close>

text \<open>
  Claim C3. If \<open>sendWebhook\<close> throws while the drain loop awaits it, \<open>processQueue\<close> is
  left with \<open>processing\<close> still set. From then on, whatever happens (triggers, ticks,
  timers that fire, test calls), the flag stays set and no loop runs: a tick changes
  nothing, no send of a queued item completes, and the queue only grows at its back.
\<close>

theorem throw_leaves_processing_set:
  assumes "processing w" and "inflight w = Some it"
    and "snd (sendWebhook out fs it w) = Some e"
  shows "processing (step (Complete out fs) w) \<and>
         inflight (step (Complete out fs) w) = None \<and>
         queue (step (Complete out fs) w) = queue w \<and>
         (\<forall>es. processing (run es (step (Complete out fs) w)) \<and>
               inflight (run es (step (Complete out fs) w)) = None \<and>
               prefix (queue w) (queue (run es (step (Complete out fs) w))) \<and>
               step Tick (run es (step (Complete out fs) w)) =
                 run es (step (Complete out fs) w) \<and>
               (\<forall>out' fs'. step (Complete out' fs') (run es (step (Complete out fs) w))
                   = run es (step (Complete out fs) w)))"
proof -
  let ?w = "step (Complete out fs) w"
  have p: "processing ?w" and i: "inflight ?w = None" and q: "queue ?w = queue w"
    using assms sendWebhook_frame [of out fs it w]
    by (auto simp: complete_def split: prod.splits option.splits)
  have "processing (run es ?w) \<and> inflight (run es ?w) = None \<and>
        prefix (queue w) (queue (run es ?w)) \<and>
        step Tick (run es ?w) = run es ?w \<and>
        (\<forall>out' fs'. step (Complete out' fs') (run es ?w) = run es ?w)" for es
    using stuck_run [OF p i, of es] q by (simp add: tick_def complete_def)
  with p i q show ?thesis by blast
qed

theorem throw_leaves_processing_set_witness:
  "processing example_sending \<and> inflight example_sending = Some example_item \<and>
   snd (sendWebhook (Rejected ''timeout'') [True] example_item example_sending) =
     Some SqlError \<and>
   processing (run [Tick, Trigger 1 ''user.registered'' ''{id:u2}'', Tick]
     (step (Complete (Rejected ''timeout'') [True]) example_sending)) \<and>
   inflight (run [Tick, Trigger 1 ''user.registered'' ''{id:u2}'', Tick]
     (step (Complete (Rejected ''timeout'') [True]) example_sending)) = None"
proof -
  have h1: "processing example_sending" by (simp add: example_defs)
  have h2: "inflight example_sending = Some example_item" by (simp add: example_defs)
  have h3: "snd (sendWebhook (Rejected ''timeout'') [True] example_item example_sending) =
     Some SqlError"
    by (simp add: sendWebhook_def catch_block_throws)
  from throw_leaves_processing_set [OF h1 h2 h3] h1 h2 h3
  show ?thesis by blast
qed

section \<open>Exhaustion\<close>

text \<open>
  Claim C4. A record whose retry count equals the subscription's \<open>retry_count\<close> with
  \<open>success = false\<close> is to be the last of its attempt; with \<open>retry_count\<close> 0 and a single
  send answered by HTTP 503 exactly one failure record is expected. The attempt is indeed
  dropped without a timer, but the table holds two failure records with retry count 0:
  the one of the \<open>try\<close> block (status 503) and the one of the \<open>catch\<close> block (no status,
  the error message).
\<close>

theorem exhausted_send_logs_twice:
  "run [Trigger 0 ''user.registered'' ''{id:u1}'', Complete (Response 503 ''busy'') []]
     (example_world 0)
   = (example_world 0)
       \<lparr>deliveries :=
          [\<lparr>webhook_id = ''w1'', event_type = ''user.registered'',
            delivery_payload = ''{id:u1}'', response_status = Some 503,
            response_body = Some ''busy'', delivery_success = False,
            delivery_retry_count = 0, error_message = None\<rparr>,
           \<lparr>webhook_id = ''w1'', event_type = ''user.registered'',
            delivery_payload = ''{id:u1}'', response_status = None,
            response_body = None, delivery_success = False,
            delivery_retry_count = 0, error_message = Some (HttpError 503 ''busy'')\<rparr>]\<rparr>"
  by (simp add: example_defs model_defs)

section \<open>The test call\<close>

text \<open>
  Claim C5. \<open>test\<close> is said to send and record like a normal delivery, with the retry
  count fixed at 0, and never to schedule a retry. The first half holds: \<open>test\<close> is
  \<open>sendWebhook\<close> on an item with \<open>retries: 0\<close> and event type \<open>test\<close> for the row with
  the given id, with the given payload or, when that is omitted or falsy, the
  synthetic one; it does not touch the queue, and every record it writes has retry
  count 0. But \<open>sendWebhook\<close> has no switch for retries. For every outcome and every
  behaviour of the store: \<open>test\<close> sets the ordinary retry timer (5000 ms, counter 1) when
  the \<open>catch\<close> block is entered (\<open>fetch\<close> rejected, response not \<open>ok\<close>, or the insert of
  the response record threw), the insert of the failure record does not throw and the
  subscription's \<open>retry_count\<close> is positive; in every other case it sets no timer.
\<close>

theorem test_uses_send_path:
  assumes "find (\<lambda>hook. hook_id hook = wid) (hooks w) = Some hook"
    and "it = \<lparr>webhook = hook, eventType = ''test'',
               payload = (case tp of None \<Rightarrow> dflt
                          | Some p \<Rightarrow> if is_truthy p then p else dflt),
               retries = 0, timestamp = None\<rparr>"
  shows "test is_truthy dflt wid tp out fs w = sendWebhook out fs it w \<and>
         queue (fst (test is_truthy dflt wid tp out fs w)) = queue w \<and>
         inflight (fst (test is_truthy dflt wid tp out fs w)) = inflight w \<and>
         (\<forall>d \<in> set (drop (length (deliveries w))
                      (deliveries (fst (test is_truthy dflt wid tp out fs w)))).
             delivery_retry_count d = 0) \<and>
         timers (fst (test is_truthy dflt wid tp (Rejected msg) fs w)) =
           (if \<not> fst (next_fault fs) \<and> 0 < retry_count hook
            then timers w @ [(Finite 5000, it\<lparr>retries := 1\<rparr>)]
            else timers w) \<and>
         (ok st \<and> \<not> fst (next_fault fs) \<longrightarrow>
            timers (fst (test is_truthy dflt wid tp (Response st b) fs w)) = timers w) \<and>
         (\<not> ok st \<or> fst (next_fault fs) \<longrightarrow>
            timers (fst (test is_truthy dflt wid tp (Response st b) fs w)) =
              (if \<not> fst (next_fault (snd (next_fault fs))) \<and> 0 < retry_count hook
               then timers w @ [(Finite 5000, it\<lparr>retries := 1\<rparr>)]
               else timers w))"
proof -
  have eq: "test is_truthy dflt wid tp out' fs' w = sendWebhook out' fs' it w" for out' fs'
    using assms by (simp add: test_def)
  have r0: "retries it = 0" and rc: "retry_count (webhook it) = retry_count hook"
    using assms(2) by simp_all
  have rows: "\<forall>d \<in> set (drop (length (deliveries w))
                 (deliveries (fst (sendWebhook out fs it w)))).
             delivery_retry_count d = 0"
    using r0
    by (cases out; cases fs)
       (auto simp: sendWebhook_def catch_block_def logWebhookDelivery_def
             split: sum.splits if_splits)
  have b0: "backoff 0 = Finite 5000" using backoff_finite [of 0] by simp
  have rej: "timers (fst (sendWebhook (Rejected msg) fs it w)) =
           (if \<not> fst (next_fault fs) \<and> 0 < retry_count hook
            then timers w @ [(Finite 5000, it\<lparr>retries := 1\<rparr>)]
            else timers w)"
    using rejected_send_timers [of msg fs it w] by (simp add: r0 rc b0)
  have good: "ok st \<and> \<not> fst (next_fault fs) \<longrightarrow>
            timers (fst (sendWebhook (Response st b) fs it w)) = timers w"
    using stored_ok_send_timers [of st fs b it w] by simp
  have caught: "\<not> ok st \<or> fst (next_fault fs) \<longrightarrow>
            timers (fst (sendWebhook (Response st b) fs it w)) =
              (if \<not> fst (next_fault (snd (next_fault fs))) \<and> 0 < retry_count hook
               then timers w @ [(Finite 5000, it\<lparr>retries := 1\<rparr>)]
               else timers w)"
    using caught_send_timers [of st fs b it w] by (simp add: r0 rc b0)
  show ?thesis
    using rows rej good caught sendWebhook_frame [of out fs it w] by (simp add: eq)
qed

theorem test_uses_send_path_witness:
  "find (\<lambda>hook. hook_id hook = ''w1'') (hooks (example_world 3)) = Some (example_hook 3) \<and>
   0 < retry_count (example_hook 3) \<and> \<not> ok 500 \<and> ok 200 \<and>
   \<not> fst (next_fault []) \<and> fst (next_fault [True]) \<and>
   test (\<lambda>p. p \<noteq> []) ''probe'' ''w1'' (Some []) (Response 500 ''error'') [] (example_world 3) =
     sendWebhook (Response 500 ''error'') []
       \<lparr>webhook = example_hook 3, eventType = ''test'', payload = ''probe'',
        retries = 0, timestamp = None\<rparr> (example_world 3) \<and>
   timers (fst (test (\<lambda>p. p \<noteq> []) ''probe'' ''w1'' (Some []) (Response 500 ''error'') []
      (example_world 3))) =
     [(Finite 5000, \<lparr>webhook = example_hook 3, eventType = ''test'', payload = ''probe'',
                retries = 1, timestamp = None\<rparr>)] \<and>
   timers (fst (test (\<lambda>p. p \<noteq> []) ''probe'' ''w1'' (Some []) (Response 200 ''ok'') []
      (example_world 3))) = [] \<and>
   timers (fst (test (\<lambda>p. p \<noteq> []) ''probe'' ''w1'' (Some []) (Response 200 ''ok'') [True]
      (example_world 3))) =
     [(Finite 5000, \<lparr>webhook = example_hook 3, eventType = ''test'', payload = ''probe'',
                retries = 1, timestamp = None\<rparr>)]"
proof -
  let ?it = "\<lparr>webhook = example_hook 3, eventType = ''test'', payload = ''probe'',
        retries = 0, timestamp = None\<rparr>"
  have h: "find (\<lambda>hook. hook_id hook = ''w1'') (hooks (example_world 3)) =
             Some (example_hook 3)"
    by (simp add: example_defs)
  have i: "?it = \<lparr>webhook = example_hook 3, eventType = ''test'',
               payload = (case Some [] of None \<Rightarrow> ''probe''
                          | Some p \<Rightarrow> if p \<noteq> [] then p else ''probe''),
               retries = 0, timestamp = None\<rparr>"
    by simp
  have r: "0 < retry_count (example_hook 3)" by (simp add: example_defs)
  have n: "\<not> ok 500" and a: "ok 200" by (simp_all add: ok_def)
  have f0: "\<not> fst (next_fault [])" and f1: "fst (next_fault [True])"
    and f2: "\<not> fst (next_fault (snd (next_fault [])))"
    and f3: "\<not> fst (next_fault (snd (next_fault [True])))" by simp_all
  have t: "timers (example_world 3) = []" by (simp add: example_defs)
  note inst = test_uses_send_path [where is_truthy = "\<lambda>p. p \<noteq> []" and tp = "Some []"
      and dflt = "''probe''" and it = ?it, OF h i]
  note bad = inst [where out = "Response 500 ''error''" and fs = "[]" and st = 500
      and b = "''error''" and msg = "''timeout''"]
  note good = inst [where out = "Response 200 ''ok''" and fs = "[]" and st = 200
      and b = "''ok''" and msg = "''timeout''"]
  note lost = inst [where out = "Response 200 ''ok''" and fs = "[True]" and st = 200
      and b = "''ok''" and msg = "''timeout''"]
  have 1: "test (\<lambda>p. p \<noteq> []) ''probe'' ''w1'' (Some []) (Response 500 ''error'') []
        (example_world 3) = sendWebhook (Response 500 ''error'') [] ?it (example_world 3)"
    by (rule bad [THEN conjunct1])
  from bad [THEN conjunct2, THEN conjunct2, THEN conjunct2, THEN conjunct2, THEN conjunct2,
      THEN conjunct2] n r f0 f2 t
  have 2: "timers (fst (test (\<lambda>p. p \<noteq> []) ''probe'' ''w1'' (Some [])
        (Response 500 ''error'') [] (example_world 3))) = [(Finite 5000, ?it\<lparr>retries := 1\<rparr>)]"
    by simp
  from good [THEN conjunct2, THEN conjunct2, THEN conjunct2, THEN conjunct2, THEN conjunct2,
      THEN conjunct1] a f0 t
  have 3: "timers (fst (test (\<lambda>p. p \<noteq> []) ''probe'' ''w1'' (Some [])
        (Response 200 ''ok'') [] (example_world 3))) = []"
    by simp
  from lost [THEN conjunct2, THEN conjunct2, THEN conjunct2, THEN conjunct2, THEN conjunct2,
      THEN conjunct2] a r f1 f3 t
  have 4: "timers (fst (test (\<lambda>p. p \<noteq> []) ''probe'' ''w1'' (Some [])
        (Response 200 ''ok'') [True] (example_world 3))) = [(Finite 5000, ?it\<lparr>retries := 1\<rparr>)]"
    by simp
  from 2 3 4 have 5: "timers (fst (test (\<lambda>p. p \<noteq> []) ''probe'' ''w1'' (Some [])
        (Response 500 ''error'') [] (example_world 3))) =
      [(Finite 5000, \<lparr>webhook = example_hook 3, eventType = ''test'', payload = ''probe'',
                retries = 1, timestamp = None\<rparr>)]"
    and 6: "timers (fst (test (\<lambda>p. p \<noteq> []) ''probe'' ''w1'' (Some [])
        (Response 200 ''ok'') [True] (example_world 3))) =
      [(Finite 5000, \<lparr>webhook = example_hook 3, eventType = ''test'', payload = ''probe'',
                retries = 1, timestamp = None\<rparr>)]"
    by simp_all
  from h r n a f0 f1 1 5 3 6 show ?thesis by blast
qed

theorem test_schedules_retry:
  "timers (fst (test (\<lambda>p. p \<noteq> []) ''probe'' ''w1'' None (Response 500 ''error'') []
      (example_world 3)))
   = [(Finite 5000, \<lparr>webhook = example_hook 3, eventType = ''test'', payload = ''probe'',
              retries = 1, timestamp = None\<rparr>)]"
  by (simp add: example_defs model_defs)

section \<open>Backoff\<close>

text \<open>
  Claim C6. The delay before retry \<open>k\<close> is said to be \<open>5000 * 2 ^ (k - 1)\<close> ms for every
  failed send, strictly increasing in \<open>k\<close>. The code computes it as a double, and a retry
  is only scheduled once the failure record is stored. So: when the retry test is
  reached (the \<open>catch\<close> block is entered and its insert does not throw) with the counter
  \<open>k - 1\<close> below the subscription's maximum, exactly one timer is added, carrying the sent
  item with counter \<open>k\<close>; its delay is \<open>5000 * 2 ^ (k - 1)\<close> ms as long as \<open>k\<close> is at most
  1012, less than that of the next retry as long as \<open>k\<close> is at most 1011, and \<open>Infinity\<close>
  from \<open>k\<close> = 1013 on. \<open>5000\<close> is \<open>retryDelay\<close>. Whatever the outcome and the store do, a
  send adds no other timer than this one. A timer that fires pushes its item at the
  back of the queue.
\<close>

theorem retry_backoff:
  assumes "(out = Rejected msg \<and> \<not> fst (next_fault fs)) \<or>
           (out = Response st b \<and> (\<not> ok st \<or> fst (next_fault fs)) \<and>
              \<not> fst (next_fault (snd (next_fault fs))))"
    and "retries it < retry_count (webhook it)"
    and "k = retries it + 1"
  shows "timers (fst (sendWebhook out fs it w)) =
           timers w @ [(backoff (k - 1), it\<lparr>retries := k\<rparr>)] \<and>
         retryDelay = 5000 \<and>
         (k \<le> 1012 \<longrightarrow> backoff (k - 1) = Finite (5000 * 2 ^ (k - 1))) \<and>
         (k \<le> 1011 \<longrightarrow> backoff k = Finite (5000 * 2 ^ k) \<and>
            (5000::nat) * 2 ^ (k - 1) < 5000 * 2 ^ k) \<and>
         (1013 \<le> k \<longrightarrow> backoff (k - 1) = Infinity) \<and>
         (timers (fst (sendWebhook out' fs' it w)) = timers w \<or>
          timers (fst (sendWebhook out' fs' it w)) =
            timers w @ [(backoff (k - 1), it\<lparr>retries := k\<rparr>)]) \<and>
         (\<forall>n < length (timers v). queue (fire n v) = queue v @ [snd (timers v ! n)])"
proof -
  have sched: "timers (fst (sendWebhook out fs it w)) =
           timers w @ [(backoff (k - 1), it\<lparr>retries := k\<rparr>)]"
  proof (cases out)
    case (Rejected m)
    with assms show ?thesis using rejected_send_timers [of m fs it w] by auto
  next
    case (Response st' b')
    with assms show ?thesis using caught_send_timers [of st' fs b' it w] by auto
  qed
  have any: "timers (fst (sendWebhook out' fs' it w)) = timers w \<or>
          timers (fst (sendWebhook out' fs' it w)) =
            timers w @ [(backoff (k - 1), it\<lparr>retries := k\<rparr>)]"
    using send_adds_at_most_one_timer [of out' fs' it w] assms(3) by simp
  have fin: "k \<le> 1012 \<longrightarrow> backoff (k - 1) = Finite (5000 * 2 ^ (k - 1))"
    using backoff_finite [of "k - 1"] by auto
  have nxt: "k \<le> 1011 \<longrightarrow> backoff k = Finite (5000 * 2 ^ k) \<and>
            (5000::nat) * 2 ^ (k - 1) < 5000 * 2 ^ k"
    using backoff_finite [of k] assms(3) by auto
  have over: "1013 \<le> k \<longrightarrow> backoff (k - 1) = Infinity"
    using backoff_infinite [of "k - 1"] by auto
  have rear: "\<forall>n < length (timers v). queue (fire n v) = queue v @ [snd (timers v ! n)]"
    by (simp add: fire_def)
  from sched any fin nxt over rear show ?thesis by (simp add: retryDelay_def)
qed

theorem retry_backoff_witness:
  "retries (example_item\<lparr>retries := 1\<rparr>) < retry_count (webhook (example_item\<lparr>retries := 1\<rparr>)) \<and>
   \<not> ok 500 \<and> \<not> fst (next_fault (snd (next_fault []))) \<and>
   timers (fst (sendWebhook (Response 500 ''error'') [] (example_item\<lparr>retries := 1\<rparr>)
      (example_world 3))) =
     [(Finite 10000, example_item\<lparr>retries := 2\<rparr>)] \<and>
   queue (fire 0 (fst (sendWebhook (Response 500 ''error'') [] (example_item\<lparr>retries := 1\<rparr>)
      (example_world 3)))) = [example_item\<lparr>retries := 2\<rparr>]"
proof -
  let ?it = "example_item\<lparr>retries := 1\<rparr>"
  let ?w = "fst (sendWebhook (Response 500 ''error'') [] ?it (example_world 3))"
  have n: "\<not> ok 500" by (simp add: ok_def)
  have g: "\<not> fst (next_fault (snd (next_fault [])))" by simp
  from n g have f: "(Response 500 ''error'' = Rejected ''timeout'' \<and> \<not> fst (next_fault [])) \<or>
     (Response 500 ''error'' = Response 500 ''error'' \<and> (\<not> ok 500 \<or> fst (next_fault [])) \<and>
        \<not> fst (next_fault (snd (next_fault []))))" by simp
  have h: "retries ?it < retry_count (webhook ?it)"
    by (simp add: example_defs new_item_def)
  have k: "(2::nat) = retries ?it + 1" by simp
  have t: "timers (example_world 3) = []" and q: "queue (example_world 3) = []"
    by (simp_all add: example_defs)
  note inst = retry_backoff [OF f h k, where w = "example_world 3" and v = ?w
      and out' = "Rejected ''timeout''" and fs' = "[True]"]
  from inst have 1: "timers ?w = timers (example_world 3) @ [(backoff (2 - 1), ?it\<lparr>retries := 2\<rparr>)]"
    and 2: "\<forall>n < length (timers ?w). queue (fire n ?w) = queue ?w @ [snd (timers ?w ! n)]"
    and b: "(2::nat) \<le> 1012 \<longrightarrow> backoff (2 - 1) = Finite (5000 * 2 ^ (2 - 1))"
    by blast+
  from b have "backoff (2 - 1) = Finite 10000" by simp
  with 1 t have 3: "timers ?w = [(Finite 10000, example_item\<lparr>retries := 2\<rparr>)]" by simp
  with 2 have "queue (fire 0 ?w) = queue ?w @ [example_item\<lparr>retries := 2\<rparr>]" by simp
  moreover have "queue ?w = []" using sendWebhook_frame [of "Response 500 ''error''" "[]" ?it
      "example_world 3"] q by simp
  ultimately show ?thesis using h n g 3 by simp
qed

theorem backoff_overflows:
  "retries example_late < retry_count (webhook example_late) \<and>
   timers (fst (sendWebhook (Rejected ''timeout'') [] example_late (example_world 2000))) =
     [(Infinity, example_late\<lparr>retries := 1013\<rparr>)] \<and>
   backoff 1012 = Infinity \<and> backoff 1013 = Infinity"
proof -
  have 1: "backoff 1012 = Infinity" by (rule backoff_infinite) simp
  have 2: "backoff 1013 = Infinity" by (rule backoff_infinite) simp
  have r: "retries example_late = 1012" and c: "retry_count (webhook example_late) = 2000"
    by (simp_all add: example_late_def example_defs)
  have t: "timers (example_world 2000) = []" by (simp add: example_defs)
  from rejected_send_timers [of "''timeout''" "[]" example_late "example_world 2000"]
  have "timers (fst (sendWebhook (Rejected ''timeout'') [] example_late (example_world 2000))) =
     [(Infinity, example_late\<lparr>retries := 1013\<rparr>)]"
    by (simp add: r c t 1)
  with 1 2 r c show ?thesis by simp
qed

section \<open>Fan-out\<close>



section \<open>Classification of outcomes\<close>

text \<open>
  Claim C8. A response whose status is in 200-299 is said to leave a record with
  \<open>success = true\<close> and no retry, every other outcome a record with \<open>success = false\<close>.
  The insert sits in the same \<open>try\<close> block as the \<open>fetch\<close>: when it throws after a 2xx
  response, the \<open>catch\<close> block records a failure and schedules a retry like after a
  failed send. What holds for every behaviour of the store: a response with a status in
  200-299 whose insert does not throw leaves exactly one record, with \<open>success = true\<close>
  and the counter of the send, and no timer; after any other outcome (another status,
  or a rejected \<open>fetch\<close>: network failure or timeout) every record added has
  \<open>success = false\<close>, and at least one is added unless every insert of the send throws.
\<close>

theorem outcome_classification:
  "(ok st \<longleftrightarrow> 200 \<le> st \<and> st \<le> 299) \<and>
   (ok st \<and> \<not> fst (next_fault fs) \<longrightarrow>
      sendWebhook (Response st b) fs it w =
        (w\<lparr>deliveries := deliveries w @
           [\<lparr>webhook_id = hook_id (webhook it), event_type = eventType it,
             delivery_payload = payload it, response_status = Some st,
             response_body = Some b, delivery_success = True,
             delivery_retry_count = retries it, error_message = None\<rparr>]\<rparr>, None)) \<and>
   (out = Rejected msg \<or> (out = Response st b \<and> \<not> ok st) \<longrightarrow>
      (\<exists>rows. deliveries (fst (sendWebhook out fs it w)) = deliveries w @ rows \<and>
         (\<forall>d \<in> set rows. \<not> delivery_success d) \<and>
         (rows = [] \<longleftrightarrow>
            fst (next_fault fs) \<and>
            (out = Rejected msg \<or> fst (next_fault (snd (next_fault fs)))))))"
proof -
  have good: "ok st \<and> \<not> fst (next_fault fs) \<longrightarrow>
      sendWebhook (Response st b) fs it w =
        (w\<lparr>deliveries := deliveries w @
           [\<lparr>webhook_id = hook_id (webhook it), event_type = eventType it,
             delivery_payload = payload it, response_status = Some st,
             response_body = Some b, delivery_success = True,
             delivery_retry_count = retries it, error_message = None\<rparr>]\<rparr>, None)"
    by (simp add: sendWebhook_def logWebhookDelivery_def)
  have bad: "\<exists>rows. deliveries (fst (sendWebhook out fs it w)) = deliveries w @ rows \<and>
         (\<forall>d \<in> set rows. \<not> delivery_success d) \<and>
         (rows = [] \<longleftrightarrow>
            fst (next_fault fs) \<and>
            (out = Rejected msg \<or> fst (next_fault (snd (next_fault fs)))))"
    if "out = Rejected msg \<or> (out = Response st b \<and> \<not> ok st)"
    using that
    by (cases "fst (next_fault fs)"; cases "fst (next_fault (snd (next_fault fs)))")
       (auto simp: sendWebhook_def logWebhookDelivery_def catch_block_throws
          catch_block_stores)
  from good bad show ?thesis by (simp add: ok_def)
qed

theorem outcome_classification_witness:
  "ok 201 \<and> \<not> ok 404 \<and> \<not> fst (next_fault []) \<and>
   sendWebhook (Response 201 ''created'') [] example_item (example_world 3) =
     ((example_world 3)\<lparr>deliveries :=
         [\<lparr>webhook_id = ''w1'', event_type = ''user.registered'',
           delivery_payload = ''{id:u1}'', response_status = Some 201,
           response_body = Some ''created'', delivery_success = True,
           delivery_retry_count = 0, error_message = None\<rparr>]\<rparr>, None) \<and>
   (\<exists>rows. rows \<noteq> [] \<and>
      deliveries (fst (sendWebhook (Response 404 ''gone'') [] example_item (example_world 3))) =
        deliveries (example_world 3) @ rows \<and>
      (\<forall>d \<in> set rows. \<not> delivery_success d))"
proof -
  have h: "\<not> fst (next_fault [])" by simp
  have a: "ok 201" and n: "\<not> ok 404" by (simp_all add: ok_def)
  have d: "deliveries (example_world 3) = []" by (simp add: example_defs)
  from outcome_classification [where st = 201 and b = "''created''" and it = example_item
      and w = "example_world 3" and fs = "[]" and out = "Response 201 ''created''"
      and msg = "''timeout''"] a h
  have 1: "sendWebhook (Response 201 ''created'') [] example_item (example_world 3) =
     ((example_world 3)\<lparr>deliveries :=
         [\<lparr>webhook_id = ''w1'', event_type = ''user.registered'',
           delivery_payload = ''{id:u1}'', response_status = Some 201,
           response_body = Some ''created'', delivery_success = True,
           delivery_retry_count = 0, error_message = None\<rparr>]\<rparr>, None)"
    by (simp add: d example_item_def new_item_def example_hook_def)
  from outcome_classification [where st = 404 and b = "''gone''" and it = example_item
      and w = "example_world 3" and fs = "[]" and out = "Response 404 ''gone''"
      and msg = "''timeout''"] n h
  have 2: "\<exists>rows. rows \<noteq> [] \<and>
      deliveries (fst (sendWebhook (Response 404 ''gone'') [] example_item (example_world 3))) =
        deliveries (example_world 3) @ rows \<and>
      (\<forall>d \<in> set rows. \<not> delivery_success d)"
    by auto
  from h a n 1 2 show ?thesis by blast
qed

theorem store_fault_turns_success_into_retry:
  "ok 200 \<and>
   sendWebhook (Response 200 ''ok'') [True] example_item (example_world 3) =
     ((example_world 3)\<lparr>deliveries :=
         [\<lparr>webhook_id = ''w1'', event_type = ''user.registered'',
           delivery_payload = ''{id:u1}'', response_status = None,
           response_body = None, delivery_success = False,
           delivery_retry_count = 0, error_message = Some SqlError\<rparr>],
        timers := [(Finite 5000, example_item\<lparr>retries := 1\<rparr>)]\<rparr>, None)"
  by (simp add: example_defs model_defs)

section \<open>Signature and body\<close>

text \<open>
  The signature is a function of the bytes signed and of the secret. When the payload
  holds at the second serialization what it held at the first, the signature header
  is the signature of the bytes of the body.
\<close>

lemma signature_of_unchanged_payload:
  assumes "secret (webhook it) = Some s" and "s \<noteq> []"
    and "at_sign (payload it) = at_fetch (payload it)"
  shows "req_headers (buildRequest stringify encode hmac at_sign at_fetch it)
           ''X-Webhook-Signature'' =
         Some (hex (hmac (encode s)
           (encode (req_body (buildRequest stringify encode hmac at_sign at_fetch it)))))"
  using assms by (simp add: buildRequest_def generateSignature_def Let_def)

lemma signature_same_bytes:
  "encode (stringify v) = encode (stringify v') \<Longrightarrow>
   generateSignature stringify encode hmac v s = generateSignature stringify encode hmac v' s"
  by (simp add: generateSignature_def)

text \<open>
  Claim C9. The signature is to be computed over exactly the bytes sent as the body.
  \<open>sendWebhook\<close> serializes the payload once for the signature and once more, after
  awaiting the signature, for the body. For the caller who changes the payload object
  right after \<open>trigger\<close> has returned, the request carries the body \<open>{id:u2}\<close> and the
  signature of \<open>{id:u1}\<close>: the receiver's check of the signature against the body fails.
\<close>

theorem signature_of_stale_payload:
  "req_body (buildRequest example_stringify example_encode example_hmac
      example_before example_after example_signed) = ''{id:u2}'' \<and>
   req_headers (buildRequest example_stringify example_encode example_hmac
      example_before example_after example_signed) ''X-Webhook-Signature'' =
     Some (hex (example_hmac (example_encode ''k'') (example_encode ''{id:u1}''))) \<and>
   hex (example_hmac (example_encode ''k'') (example_encode ''{id:u1}'')) =
     ''6b7b69643a75317d'' \<and>
   hex (example_hmac (example_encode ''k'')
     (example_encode (req_body (buildRequest example_stringify example_encode example_hmac
        example_before example_after example_signed)))) = ''6b7b69643a75327d''"
  by code_simp

section \<open>SQL text and bound parameters\<close>

text \<open>
  Claim C10. The SQL text of every store operation of the plugin is to be a constant,
  caller data reaching the store through the parameter array only. \<open>delete\<close> does so,
  whatever the id. \<open>update\<close> pastes every key of the caller's object, other than \<open>id\<close>
  and \<open>create_date\<close>, into the statement: the key \<open>active = 1, url\<close> yields a statement
  that sets two columns, one of them to a value the caller wrote into the SQL text.
  \<open>updateProfile\<close> of the auth plugin, built the same way, lets only its four column
  names through and drops that key.
\<close>

theorem update_sql_depends_on_keys:
  "update_stmt (\<lambda>v. ''{}'') (JString ''w1'' :: unit jsval)
      [(''active = 1, url'', JString ''https://evil.test'')] =
     (''UPDATE webhooks SET active = 1, url = ? WHERE id = ?'',
      [JString ''https://evil.test'', JString ''w1'']) \<and>
   update_stmt (\<lambda>v. ''{}'') (JString ''w1'' :: unit jsval)
      [(''url'', JString ''https://evil.test'')] =
     (''UPDATE webhooks SET url = ? WHERE id = ?'',
      [JString ''https://evil.test'', JString ''w1'']) \<and>
   delete_stmt (JString ''w1 OR 1 = 1'' :: unit jsval) =
     (''UPDATE webhooks SET active = 0 WHERE id = ?'', [JString ''w1 OR 1 = 1'']) \<and>
   updateProfile_stmt (JString ''u1'' :: unit jsval)
      [(''role = 1, email'', JString ''a@evil.test''), (''email'', JString ''b@evil.test'')] =
     (''UPDATE users SET email = ? WHERE id = ?'',
      [JString ''b@evil.test'', JString ''u1''])"
  by (simp add: update_stmt_def update_keys_def delete_stmt_def updateProfile_stmt_def
      allowedFields_def)

end
